theory Spec2Isabelle
  imports Main "HOL-Library.AList"
begin

section \<open>Host values and JavaScript objects\<close>

text \<open>
  Values that reach the translation layer from a GraphQL input: JSON-like data.
  A JavaScript object (\<open>Record<string, T>\<close>) is an association list in insertion order
  (the order of \<open>Object.entries\<close> for the non-numeric keys a GraphQL field name can be).
\<close>

datatype jsval =
    JNull
  | JBool bool
  | JNum int
  | JStr string
  | JList "jsval list"
  | JObject "(string \<times> jsval) list"

type_synonym 'v jsrecord = "(string \<times> 'v) list"

text \<open>\<open>acc[key] = value\<close>: an existing key keeps its position, a new key is appended.\<close>

definition assign :: "string \<Rightarrow> 'v \<Rightarrow> 'v jsrecord \<Rightarrow> 'v jsrecord" where
  "assign key v acc = AList.update key v acc"

text \<open>Object spread \<open>{ ...a, ...b }\<close>: the entries of \<open>a\<close>, then each entry of \<open>b\<close> assigned in order.\<close>

definition spread :: "'v jsrecord \<Rightarrow> 'v jsrecord \<Rightarrow> 'v jsrecord" where
  "spread a b = fold (\<lambda>(key, v) acc. assign key v acc) b (fold (\<lambda>(key, v) acc. assign key v acc) a [])"

definition keys :: "'v jsrecord \<Rightarrow> string list" where
  "keys obj = map fst obj"

text \<open>A string is truthy in JavaScript when it is not empty; \<open>undefined\<close> is falsy.\<close>

definition truthy :: "string option \<Rightarrow> bool" where
  "truthy s = (case s of None \<Rightarrow> False | Some t \<Rightarrow> t \<noteq> [])"

text \<open>\<open>a || b\<close> on optional strings.\<close>

definition js_or :: "string option \<Rightarrow> string option \<Rightarrow> string option" where
  "js_or a b = (if truthy a then a else b)"

text \<open>\<open>Array.prototype.join\<close>.\<close>

fun join :: "string \<Rightarrow> string list \<Rightarrow> string" where
  "join sep [] = []"
| "join sep [x] = x"
| "join sep (x # y # ys) = x @ sep @ join sep (y # ys)"

text \<open>The decimal text of an array index, as a template literal prints it.\<close>

definition digitChar :: "nat \<Rightarrow> char" where
  "digitChar d = char_of (48 + d)"

fun decimal :: "nat \<Rightarrow> string" where
  "decimal n = (if n < 10 then [digitChar n] else decimal (n div 10) @ [digitChar (n mod 10)])"

declare decimal.simps [simp del]

text \<open>\<open>String.prototype.toLowerCase\<close> on ASCII text.\<close>

definition toLowerCaseChar :: "char \<Rightarrow> char" where
  "toLowerCaseChar c =
     (let n = (of_char c :: nat) in if 65 \<le> n \<and> n \<le> 90 then char_of (n + 32) else c)"

definition toLowerCase :: "string \<Rightarrow> string" where
  "toLowerCase s = map toLowerCaseChar s"

section \<open>Schema model: fields, nodes, relationships, context\<close>

text \<open>
  The members of the schema classes that \<open>create-connect-or-create-and-params.ts\<close> reads
  (the classes themselves are declared outside the sources).
  An optional member (\<open>dbPropertyName?\<close>, \<open>timestamps?\<close>, \<open>callback?\<close>, \<open>auth?\<close>) is an option;
  an optional boolean (\<open>autogenerate?\<close>, \<open>array?\<close>) is \<open>False\<close> when absent.
  Three members are renamed where two classes share a member name: \<open>typeName\<close> is
  \<open>typeMeta.name\<close>, \<open>relType\<close> is \<open>relationField.type\<close> and \<open>relProperties\<close> is
  \<open>relationField.properties\<close>. \<open>Node\<close> and \<open>Relationship\<close> share the members that
  \<open>getAutogeneratedParams\<close> and \<open>getCallbackFields\<close> read.
\<close>

record typeMeta =
  typeName :: string
  array :: bool

record field =
  fieldName :: string
  dbPropertyName :: "string option"
  typeMeta :: typeMeta
  autogenerate :: bool
  callback :: "string option"
  timestamps :: "string list option"

record graphElement =
  name :: string
  primitiveFields :: "field list"
  temporalFields :: "field list"

record node = graphElement +
  constrainableFields :: "field list"
  auth :: "jsval option"

record relationship = graphElement +
  properties :: "string option"

record relationField =
  direction :: string
  relType :: string
  relProperties :: "string option"

record Context =
  subscriptionsEnabled :: bool
  relationships :: "relationship list"

text \<open>
  \<open>CreateOrConnectInput\<close>. The three optional chains the code reads are the three members:
  \<open>input.where?.node\<close>, \<open>input.onCreate?.node\<close> and \<open>input.onCreate?.edge\<close>.
\<close>

record createOrConnectInput =
  where_node :: "jsval jsrecord option"
  onCreate_node :: "jsval jsrecord option"
  onCreate_edge :: "jsval jsrecord option"

section \<open>Query-builder syntax tree\<close>

text \<open>
  References of the query builder, as the code constructs them: \<open>new NamedVariable(name)\<close>,
  \<open>new NamedNode(name, { labels })\<close> and \<open>new Relationship({ source, target, type })\<close>.
  A named reference carries its name as hint; a relationship reference has no hint of its
  own. A reference is identified by what it was constructed from: the code hands one handle
  to every place that has to agree on its name, and two handles built from the same
  arguments are one reference here.
\<close>

datatype reference =
    NamedVariable string
  | NamedNode string "string list"
  | RelationshipRef reference reference string

record environment =
  prefix :: string
  references :: "(reference \<times> string) list"
  params :: "jsval jsrecord"

text \<open>
  \<open>RawCypher\<close> takes either a fixed string or a callback that receives the live
  environment and returns a string or a pair of a string and parameters (a plain string
  is the pair with no parameters).
\<close>

datatype rawCypher =
    RawCypherString string
  | RawCypherCallback "environment \<Rightarrow> (string \<times> jsval jsrecord) \<times> environment"

text \<open>The values a property is set to: a parameter, or a raw fragment stored in its place.\<close>

datatype param =
    Param jsval
  | RawCypherParam rawCypher

datatype propertyRef = PropertyRef reference string

datatype projectionColumn =
    Star
  | Column reference
  | ColumnRaw rawCypher
  | ColumnAs reference string

datatype clause =
    Merge reference "param jsrecord" "(propertyRef \<times> param) list"
  | With "projectionColumn list"
  | Return "projectionColumn list"
  | Call clause "reference list"
  | RawCypher rawCypher
  | CompositeClause "clause list"

record cypherResult =
  cypher :: string
  cypherParams :: "jsval jsrecord"

section \<open>Helpers of the translation layer\<close>

text \<open>
  The single-or-list argument type \<open>T | T[]\<close> of \<open>createConnectOrCreateAndParams\<close>.
\<close>

datatype 'a oneOrMany = One 'a | Many "'a list"

text \<open>
  Modelled from the spec: \<open>asArray\<close> of \<open>utils/utils\<close> is not among the sources. On the
  argument type \<open>T | T[]\<close> it yields the list itself, or the one-element list of a single item.
\<close>

definition asArray :: "'a oneOrMany \<Rightarrow> 'a list" where
  "asArray raw = (case raw of One x \<Rightarrow> [x] | Many xs \<Rightarrow> xs)"

text \<open>
  Modelled from the spec: \<open>omitFields\<close> of \<open>utils/utils\<close> is not among the sources. It keeps
  the entries of an object whose key is not in the given list.
\<close>

definition omitFields :: "'v jsrecord \<Rightarrow> string list \<Rightarrow> 'v jsrecord" where
  "omitFields obj fieldNames = filter (\<lambda>item. fst item \<notin> set fieldNames) obj"

text \<open>
  Modelled from the spec: \<open>convertToCypherParams\<close>, the value-conversion collaborator, is
  not among the sources. It turns each host value of a record into a parameter node that
  wraps the value unchanged.
\<close>

definition convertToCypherParams :: "jsval jsrecord \<Rightarrow> param jsrecord" where
  "convertToCypherParams original = map (\<lambda>(key, v). (key, Param v)) original"

section \<open>Environment\<close>

text \<open>
  Modelled from the spec: the Environment (the naming authority of one build) is not among
  the sources. The first request for a reference allocates a name derived from its hint,
  sanitised to an identifier, with a numeric suffix when the name is already taken by a
  different reference; later requests return the allocated name. The definitions up to
  \<open>newEnvironment\<close> are this model.
\<close>

text \<open>Modelled from the spec: the optional naming hint of a reference (empty when it has none).\<close>

definition hint :: "reference \<Rightarrow> string" where
  "hint r = (case r of NamedVariable n \<Rightarrow> n | NamedNode n labels \<Rightarrow> n | RelationshipRef s t ty \<Rightarrow> [])"

text \<open>
  Modelled from the spec: the hint sanitised to a valid identifier; letters, digits and the
  underscore are kept, and an underscore is put in front of an empty result or a digit.
\<close>

definition isIdentifierChar :: "char \<Rightarrow> bool" where
  "isIdentifierChar c =
     (let n = (of_char c :: nat)
      in (48 \<le> n \<and> n \<le> 57) \<or> (65 \<le> n \<and> n \<le> 90) \<or> (97 \<le> n \<and> n \<le> 122) \<or> n = 95)"

definition isDigitChar :: "char \<Rightarrow> bool" where
  "isDigitChar c = (let n = (of_char c :: nat) in 48 \<le> n \<and> n \<le> 57)"

definition sanitize :: "string \<Rightarrow> string" where
  "sanitize h =
     (let s = filter isIdentifierChar h
      in case s of [] \<Rightarrow> ''_'' | c # cs \<Rightarrow> if isDigitChar c then CHR ''_'' # s else s)"

text \<open>
  Modelled from the spec: the base name, or on collision with a name already allocated the
  base name with the first numeric suffix that is free. Among as many suffixes as there are
  allocated names plus one, one is free.
\<close>

definition freshName :: "string \<Rightarrow> string list \<Rightarrow> string" where
  "freshName base used =
     (if base \<notin> set used then base
      else case find (\<lambda>k. base @ decimal k \<notin> set used) [0 ..< Suc (length used)] of
             Some k \<Rightarrow> base @ decimal k
           | None \<Rightarrow> base)"

text \<open>
  Modelled from the spec: \<open>nameFor(reference)\<close>, which is what \<open>getCypher(env)\<close> of a
  reference resolves to.
\<close>

definition nameFor :: "environment \<Rightarrow> reference \<Rightarrow> string \<times> environment" where
  "nameFor env r =
     (case map_of (references env) r of
        Some n \<Rightarrow> (n, env)
      | None \<Rightarrow>
          (let n = freshName (sanitize (hint r)) (map snd (references env))
           in (n, env\<lparr>references := references env @ [(r, n)]\<rparr>)))"

text \<open>Modelled from the spec: the fresh Environment of one \<open>build\<close> call.\<close>

definition newEnvironment :: "string \<Rightarrow> environment" where
  "newEnvironment p = \<lparr>prefix = p, references = [], params = []\<rparr>"


text \<open>
  Modelled from the spec: a parameter is bound under the build's prefix followed by a
  per-parameter suffix; two parameter nodes are independent bindings.
\<close>

definition addParam :: "environment \<Rightarrow> jsval \<Rightarrow> string \<times> environment" where
  "addParam env v =
     (let key = prefix env @ ''param'' @ decimal (length (params env))
      in (key, env\<lparr>params := assign key v (params env)\<rparr>))"

text \<open>
  Modelled from the spec: the items of a list rendered in order, each on the environment the
  previous one left.
\<close>

fun mapEnv :: "('a \<Rightarrow> environment \<Rightarrow> 'c \<times> environment) \<Rightarrow> 'a list \<Rightarrow> environment \<Rightarrow> 'c list \<times> environment" where
  "mapEnv f [] env = ([], env)"
| "mapEnv f (x # xs) env =
     (let (y, env1) = f x env; (ys, env2) = mapEnv f xs env1 in (y # ys, env2))"

section \<open>Collaborators outside the sources\<close>

text \<open>
  Functions and constants that \<open>create-connect-or-create-and-params.ts\<close> imports and whose
  code is not among the sources. They are parameters of the model; \<open>'b\<close> is the callback
  bucket, which \<open>addCallbackAndSetParamCypher\<close> mutates and the model passes along.
  \<^item> \<open>findConflictingProperties node input\<close>: the names of the conflicting properties.
  \<^item> \<open>asArrayValue\<close>: \<open>asArray\<close> applied to a host value.
  \<^item> \<open>getLabels node context\<close>: the method \<open>Node.getLabels\<close>.
  \<^item> \<open>addCallbackAndSetParamCypher field varName parent bucket operation node\<close>: the pair to
    set, or nothing for the empty tuple, and the bucket it leaves.
  \<^item> \<open>createAuthAndParams entity operations context (parentNode, varName, chainStr) escapeQuotes\<close>:
    the predicate text and its parameters.
  \<^item> \<open>createRelEventMeta event relVariable fromVariable toVariable typename fromTypename toTypename\<close>.
  \<^item> \<open>filterMetaVariable\<close>, and the constant \<open>AUTH_FORBIDDEN_ERROR\<close>.
\<close>

record 'b externals =
  findConflictingProperties :: "node \<Rightarrow> jsval jsrecord option \<Rightarrow> string list"
  asArrayValue :: "jsval \<Rightarrow> jsval"
  getLabels :: "node \<Rightarrow> Context \<Rightarrow> string list"
  addCallbackAndSetParamCypher ::
    "field \<Rightarrow> reference \<Rightarrow> reference \<Rightarrow> 'b \<Rightarrow> string \<Rightarrow> reference \<Rightarrow> (propertyRef \<times> rawCypher) option \<times> 'b"
  createAuthAndParams ::
    "node \<Rightarrow> string list \<Rightarrow> Context \<Rightarrow> node \<times> string \<times> string \<Rightarrow> bool \<Rightarrow> string \<times> jsval jsrecord"
  AUTH_FORBIDDEN_ERROR :: string
  createRelEventMeta :: "string \<Rightarrow> string \<Rightarrow> string \<Rightarrow> string \<Rightarrow> string \<Rightarrow> string \<Rightarrow> string \<Rightarrow> string"
  filterMetaVariable :: "string list \<Rightarrow> string list"

text \<open>
  Modelled from the spec: \<open>concat\<close> (\<open>clauses/utils/concat\<close>) is not among the sources; the
  facade only re-exports it. It sequences the clauses it is given, top to bottom. The call in
  \<open>mergeStatement\<close> passes a clause that may be \<open>undefined\<close>, which is left out.
\<close>

definition concatClauses :: "clause option list \<Rightarrow> clause" where
  "concatClauses clauses = CompositeClause (List.map_filter (\<lambda>c. c) clauses)"

section \<open>create-connect-or-create-and-params.ts\<close>

text \<open>\<open>getCallbackFields\<close>: the primitive fields that have a callback.\<close>

definition getCallbackFields :: "'a graphElement_scheme \<Rightarrow> field list" where
  "getCallbackFields node = filter (\<lambda>f. callback f \<noteq> None) (primitiveFields node)"

text \<open>
  \<open>getAutogeneratedParams\<close>. Both reducers assign \<open>acc[field.dbPropertyName]\<close> under the test
  \<open>if (field.dbPropertyName)\<close>, which holds for a set, non-empty string; the result is the
  spread \<open>{ ...autogeneratedTemporalFields, ...autogeneratedFields }\<close>.
\<close>

definition getAutogeneratedParams :: "'a graphElement_scheme \<Rightarrow> param jsrecord" where
  "getAutogeneratedParams node =
     (let autogeneratedFields =
            fold (\<lambda>field acc.
                    case dbPropertyName field of
                      None \<Rightarrow> acc
                    | Some dbName \<Rightarrow>
                        if dbName \<noteq> []
                        then assign dbName (RawCypherParam (RawCypherString ''randomUUID()'')) acc
                        else acc)
                 (filter (\<lambda>f. autogenerate f) (primitiveFields node)) [];
          autogeneratedTemporalFields =
            fold (\<lambda>field acc.
                    case dbPropertyName field of
                      None \<Rightarrow> acc
                    | Some dbName \<Rightarrow>
                        if dbName \<noteq> []
                        then assign dbName
                               (RawCypherParam (RawCypherString (toLowerCase (typeName (typeMeta field)) @ ''()''))) acc
                        else acc)
                 (filter (\<lambda>field. typeName (typeMeta field) \<in> set [''DateTime'', ''Time'']
                            \<and> (case timestamps field of None \<Rightarrow> False | Some ts \<Rightarrow> ''CREATE'' \<in> set ts))
                         (temporalFields node)) []
      in spread autogeneratedTemporalFields autogeneratedFields)"

text \<open>
  \<open>getCypherParameters\<close>. The record defaults to the empty object and the node may be
  \<open>undefined\<close>; \<open>find\<close> takes the first constrainable field with the entry's key as
  \<open>fieldName\<close>; the two \<open>||\<close> pick the first truthy name.
\<close>

definition getCypherParameters :: "'b externals \<Rightarrow> jsval jsrecord option \<Rightarrow> node option \<Rightarrow> param jsrecord" where
  "getCypherParameters ext onCreateParams node =
     (let params =
            fold (\<lambda>(key, v) acc.
                    let nodeField = (case node of None \<Rightarrow> None
                                     | Some n \<Rightarrow> find (\<lambda>f. fieldName f = key) (constrainableFields n));
                        nodeFieldName = (case nodeField of None \<Rightarrow> None
                                         | Some f \<Rightarrow> js_or (dbPropertyName f) (Some (fieldName f)));
                        fieldName = (case js_or nodeFieldName (Some key) of None \<Rightarrow> key | Some k \<Rightarrow> k);
                        valueOrArray = (case nodeField of None \<Rightarrow> v
                                        | Some f \<Rightarrow> if array (typeMeta f) then asArrayValue ext v else v)
                    in assign fieldName valueOrArray acc)
                 (case onCreateParams of None \<Rightarrow> [] | Some entries \<Rightarrow> entries) []
      in convertToCypherParams params)"

text \<open>
  \<open>createAuthStatement\<close>: nothing when the node has no auth rules or the predicate is empty,
  otherwise the raw clause whose callback returns the validate call and the auth parameters.
\<close>

definition createAuthStatement :: "'b externals \<Rightarrow> node \<Rightarrow> Context \<Rightarrow> string \<Rightarrow> clause option" where
  "createAuthStatement ext node ctx nodeName =
     (if auth node = None then None
      else
        let authAndParams =
              createAuthAndParams ext node [''CONNECT'', ''CREATE''] ctx
                (node, nodeName, nodeName @ name node @ ''_allow'') False
        in if fst authAndParams = [] then None
           else Some (RawCypher (RawCypherCallback (\<lambda>env.
                  let predicate = ''NOT ('' @ fst authAndParams @ '')'';
                      message = AUTH_FORBIDDEN_ERROR ext;
                      cypherStr = ''CALL apoc.util.validate('' @ predicate @ '', '' @ [CHR 0x22]
                                    @ message @ [CHR 0x22] @ '', [0])''
                  in ((cypherStr, snd authAndParams), env)))))"

text \<open>
  The \<open>map\<close> over the callback fields followed by the \<open>filter\<close> of the empty tuples,
  with the bucket handed from one call to the next.
\<close>

fun callbackParamsOf ::
  "'b externals \<Rightarrow> string \<Rightarrow> reference \<Rightarrow> reference \<Rightarrow> field list \<Rightarrow> 'b \<Rightarrow> (propertyRef \<times> param) list \<times> 'b" where
  "callbackParamsOf ext varName parentNode node [] callbackBucket = ([], callbackBucket)"
| "callbackParamsOf ext varName parentNode node (callbackField # rest) callbackBucket =
     (let varNameVariable = NamedVariable varName;
          (tuple, bucket1) =
             addCallbackAndSetParamCypher ext callbackField varNameVariable parentNode callbackBucket
               ''CREATE'' node;
          (tuples, bucket2) = callbackParamsOf ext varName parentNode node rest bucket1
      in (case tuple of
            None \<Rightarrow> (tuples, bucket2)
          | Some (ref, raw) \<Rightarrow> ((ref, RawCypherParam raw) # tuples, bucket2)))"

text \<open>
  \<open>mergeStatement\<close>, with the local constants of the code in their order. The result is
  paired with the callback bucket the callback registrations leave.
\<close>

definition mergeStatement ::
  "'b externals \<Rightarrow> createOrConnectInput \<Rightarrow> node \<Rightarrow> node \<Rightarrow> Context \<Rightarrow> relationField \<Rightarrow> reference
     \<Rightarrow> string \<Rightarrow> 'b \<Rightarrow> string list \<Rightarrow> clause \<times> 'b" where
  "mergeStatement ext input refNode parentRefNode ctx relationField parentNode varName callbackBucket withVars =
     (let whereNodeParameters = getCypherParameters ext (where_node input) (Some refNode);
          onCreateNodeParameters = getCypherParameters ext (onCreate_node input) (Some refNode);
          autogeneratedParams = getAutogeneratedParams refNode;
          node = NamedNode varName (getLabels ext refNode ctx);
          unsetAutogeneratedParams = omitFields autogeneratedParams (keys whereNodeParameters);
          callbackFields = getCallbackFields refNode;
          (callbackParams, bucket1) = callbackParamsOf ext varName parentNode node callbackFields callbackBucket;
          rawNodeParams = spread unsetAutogeneratedParams onCreateNodeParameters;
          onCreateParams = map (\<lambda>(key, p). (PropertyRef node key, p)) rawNodeParams;
          merge = Merge node whereNodeParameters (onCreateParams @ callbackParams);
          relationshipFields = find (\<lambda>x. properties x = relProperties relationField) (relationships ctx);
          autogeneratedRelationshipParams =
            (case relationshipFields of None \<Rightarrow> [] | Some r \<Rightarrow> getAutogeneratedParams r);
          rawOnCreateRelationshipParams =
            convertToCypherParams (case onCreate_edge input of None \<Rightarrow> [] | Some edge \<Rightarrow> edge);
          rawRelationshipParams = spread autogeneratedRelationshipParams rawOnCreateRelationshipParams;
          source = (if direction relationField = ''IN'' then node else parentNode);
          target = (if direction relationField = ''IN'' then parentNode else node);
          relationship = RelationshipRef source target (relType relationField);
          onCreateRelationshipParams = map (\<lambda>(key, p). (PropertyRef relationship key, p)) rawRelationshipParams;
          relationshipMerge = Merge relationship [] onCreateRelationshipParams;
          withClause =
            (if subscriptionsEnabled ctx then
               let (fromTypename, toTypename) =
                     (if direction relationField = ''IN'' then (name refNode, name parentRefNode)
                      else (name parentRefNode, name refNode))
               in Some (RawCypher (RawCypherCallback (\<lambda>env.
                    let (relVariable, env1) = nameFor env relationship;
                        (fromVariable, env2) = nameFor env1 source;
                        (toVariable, env3) = nameFor env2 target;
                        eventWithMetaStr =
                          createRelEventMeta ext ''connect'' relVariable fromVariable toVariable
                            (relType relationField) fromTypename toTypename
                    in ((''WITH '' @ eventWithMetaStr @ '', ''
                           @ join '', '' (filterMetaVariable ext (withVars @ [varName])), []), env3))))
             else None)
      in (concatClauses [Some merge, Some relationshipMerge, withClause], bucket1))"

text \<open>\<open>createConnectOrCreatePartialStatement\<close>; the parent is \<open>new NamedNode(parentVar)\<close>.\<close>

definition createConnectOrCreatePartialStatement ::
  "'b externals \<Rightarrow> createOrConnectInput \<Rightarrow> string \<Rightarrow> string \<Rightarrow> relationField \<Rightarrow> node \<Rightarrow> node \<Rightarrow> Context
     \<Rightarrow> 'b \<Rightarrow> string list \<Rightarrow> clause \<times> 'b" where
  "createConnectOrCreatePartialStatement ext input baseName parentVar relationField refNode node ctx
       callbackBucket withVars =
     (let (mergeQuery, bucket1) =
            mergeStatement ext input refNode node ctx relationField (NamedNode parentVar []) baseName
              callbackBucket withVars;
          authQuery = createAuthStatement ext refNode ctx baseName
      in case authQuery of
           Some authClause \<Rightarrow> (concatClauses [Some mergeQuery, Some (With [Star]), Some authClause], bucket1)
         | None \<Rightarrow> (mergeQuery, bucket1))"

section \<open>Rendering\<close>

text \<open>
  Modelled from the spec: the render methods of the query-builder classes and \<open>build\<close> are
  not among the sources. Rendering is one depth-first pass in document order that threads
  the environment: names are allocated at the first encounter of a reference, parameters
  are collected in one table. Every definition of this section is part of that model.
\<close>

text \<open>
  Modelled from the spec: a raw fragment runs its callback on the live environment at
  render time, and the parameters it returns are merged into the table.
\<close>

fun renderRaw :: "rawCypher \<Rightarrow> environment \<Rightarrow> string \<times> environment" where
  "renderRaw (RawCypherString s) env = (s, env)"
| "renderRaw (RawCypherCallback cb) env =
     (let ((s, ps), env1) = cb env
      in (s, env1\<lparr>params := fold (\<lambda>(key, v) acc. assign key v acc) ps (params env1)\<rparr>))"

text \<open>Modelled from the spec: a parameter renders as \<open>$name\<close> under its accumulated key.\<close>

fun renderParam :: "param \<Rightarrow> environment \<Rightarrow> string \<times> environment" where
  "renderParam (Param v) env = (let (key, env1) = addParam env v in (''$'' @ key, env1))"
| "renderParam (RawCypherParam raw) env = renderRaw raw env"

text \<open>
  Modelled from the spec: a projection column of \<open>With\<close> and \<open>Return\<close>: a star, a variable, a
  raw expression, or a variable with an alias.
\<close>

fun renderColumn :: "projectionColumn \<Rightarrow> environment \<Rightarrow> string \<times> environment" where
  "renderColumn Star env = (''*'', env)"
| "renderColumn (Column r) env = nameFor env r"
| "renderColumn (ColumnRaw raw) env = renderRaw raw env"
| "renderColumn (ColumnAs r alias) env = (let (n, env1) = nameFor env r in (n @ '' AS '' @ alias, env1))"

text \<open>Modelled from the spec: the property-equality constraints of a pattern.\<close>

definition renderProperty :: "string \<times> param \<Rightarrow> environment \<Rightarrow> string \<times> environment" where
  "renderProperty kp env = (let (v, env1) = renderParam (snd kp) env in (fst kp @ '': '' @ v, env1))"

definition renderProperties :: "param jsrecord \<Rightarrow> environment \<Rightarrow> string \<times> environment" where
  "renderProperties parameters env =
     (if parameters = [] then ([], env)
      else let (ps, env1) = mapEnv renderProperty parameters env
           in ('' { '' @ join '', '' ps @ '' }'', env1))"

text \<open>Modelled from the spec: the static labels of a node reference.\<close>

definition renderLabels :: "reference \<Rightarrow> string" where
  "renderLabels r = (case r of NamedNode n labels \<Rightarrow> concat (map (\<lambda>l. '':'' @ l) labels) | _ \<Rightarrow> [])"

text \<open>
  Modelled from the spec: the pattern of a node, or of a relationship from its source to its
  target, with labels, type and property constraints.
\<close>

fun renderPattern :: "reference \<Rightarrow> param jsrecord \<Rightarrow> environment \<Rightarrow> string \<times> environment" where
  "renderPattern (RelationshipRef s t ty) parameters env =
     (let (sn, env1) = nameFor env s;
          (rn, env2) = nameFor env1 (RelationshipRef s t ty);
          (ps, env3) = renderProperties parameters env2;
          (tn, env4) = nameFor env3 t
      in (''('' @ sn @ '')-['' @ rn @ '':'' @ ty @ ps @ '']->('' @ tn @ '')'', env4))"
| "renderPattern r parameters env =
     (let (n, env1) = nameFor env r;
          (ps, env2) = renderProperties parameters env1
      in (''('' @ n @ renderLabels r @ ps @ '')'', env2))"

text \<open>Modelled from the spec: one assignment of the \<open>ON CREATE SET\<close> part of a \<open>Merge\<close>.\<close>

definition renderSetParam :: "propertyRef \<times> param \<Rightarrow> environment \<Rightarrow> string \<times> environment" where
  "renderSetParam sp env =
     (case fst sp of PropertyRef r key \<Rightarrow>
        let (n, env1) = nameFor env r;
            (v, env2) = renderParam (snd sp) env1
        in (n @ ''.'' @ key @ '' = '' @ v, env2))"

text \<open>
  Modelled from the spec: the render of each clause. \<open>Merge\<close> gives a \<open>MERGE\<close> line followed
  by an \<open>ON CREATE SET\<close> line when there is something to set; \<open>With\<close> and \<open>Return\<close> give one
  line of comma-separated projections; \<open>Call\<close> gives the import line of its \<open>innerWith\<close>
  references immediately inside the \<open>CALL { ... }\<close> block, then the inner clause; the clauses
  joined by \<open>concat\<close> are rendered top to bottom on one shared environment.
\<close>

fun getCypher :: "clause \<Rightarrow> environment \<Rightarrow> string \<times> environment"
  and getCypherList :: "clause list \<Rightarrow> environment \<Rightarrow> string list \<times> environment" where
  "getCypher (Merge element parameters onCreateParams) env =
     (let (pattern, env1) = renderPattern element parameters env;
          (sets, env2) = mapEnv renderSetParam onCreateParams env1
      in (''MERGE '' @ pattern
            @ (if sets = [] then [] else [CHR 0x0A] @ ''ON CREATE SET '' @ join '', '' sets), env2))"
| "getCypher (With columns) env =
     (let (cols, env1) = mapEnv renderColumn columns env in (''WITH '' @ join '', '' cols, env1))"
| "getCypher (Return columns) env =
     (let (cols, env1) = mapEnv renderColumn columns env in (''RETURN '' @ join '', '' cols, env1))"
| "getCypher (Call subQuery importWith) env =
     (let (imports, env1) = mapEnv (\<lambda>r e. nameFor e r) importWith env;
          importLine = (if importWith = [] then [] else ''WITH '' @ join '', '' imports @ [CHR 0x0A]);
          (inner, env2) = getCypher subQuery env1
      in (''CALL {'' @ [CHR 0x0A] @ importLine @ inner @ [CHR 0x0A] @ ''}'', env2))"
| "getCypher (RawCypher raw) env = renderRaw raw env"
| "getCypher (CompositeClause children) env =
     (let (childrenStrs, env1) = getCypherList children env in (join [CHR 0x0A] childrenStrs, env1))"
| "getCypherList [] env = ([], env)"
| "getCypherList (c # cs) env =
     (let (s, env1) = getCypher c env; (ss, env2) = getCypherList cs env1 in (s # ss, env2))"

text \<open>
  Modelled from the spec: \<open>build\<close> makes one fresh environment with the parameter prefix,
  renders the root clause and returns the text and the parameter table.
\<close>

definition build :: "clause \<Rightarrow> string \<Rightarrow> cypherResult" where
  "build root parameterPrefix =
     (let (text, env) = getCypher root (newEnvironment parameterPrefix)
      in \<lparr>cypher = text, cypherParams = params env\<rparr>)"

section \<open>createConnectOrCreateAndParams\<close>

datatype error = Neo4jGraphQLError string

text \<open>The \<open>forEach\<close> that checks every item before anything is built; a throw ends it.\<close>

fun checkConflictingProperties :: "'b externals \<Rightarrow> node \<Rightarrow> createOrConnectInput list \<Rightarrow> error option" where
  "checkConflictingProperties ext refNode [] = None"
| "checkConflictingProperties ext refNode (connectOrCreateItem # rest) =
     (let conflictingProperties = findConflictingProperties ext refNode (onCreate_node connectOrCreateItem)
      in if length conflictingProperties > 0
         then Some (Neo4jGraphQLError
                (''Conflicting modification of ''
                   @ join '', '' (map (\<lambda>n. ''[['' @ n @ '']]'') conflictingProperties)
                   @ '' on type '' @ name refNode))
         else checkConflictingProperties ext refNode rest)"

text \<open>
  \<open>const statements = asArray(input).map((inputItem, index) => ...)\<close>, from the given
  index on, with the bucket handed from one item to the next.
\<close>

fun statements ::
  "'b externals \<Rightarrow> string \<Rightarrow> string \<Rightarrow> relationField \<Rightarrow> node \<Rightarrow> node \<Rightarrow> Context \<Rightarrow> string list
     \<Rightarrow> createOrConnectInput list \<Rightarrow> nat \<Rightarrow> 'b \<Rightarrow> clause list \<times> 'b" where
  "statements ext varName parentVar relationField refNode node ctx withVars [] index callbackBucket =
     ([], callbackBucket)"
| "statements ext varName parentVar relationField refNode node ctx withVars (inputItem # rest) index callbackBucket =
     (let subqueryBaseName = varName @ decimal index;
          (result, bucket1) =
             createConnectOrCreatePartialStatement ext inputItem subqueryBaseName parentVar relationField
               refNode node ctx callbackBucket withVars;
          (results, bucket2) =
             statements ext varName parentVar relationField refNode node ctx withVars rest (Suc index) bucket1
      in (result # results, bucket2))"

text \<open>
  The function mapped over \<open>statements\<close> to give \<open>wrappedQueries\<close>. With subscriptions
  enabled the code concatenates the subquery clause with a further \<open>WITH\<close> and drops the
  result of that call; the subquery clause is what it returns.
\<close>

definition wrappedQuery :: "Context \<Rightarrow> reference list \<Rightarrow> clause \<Rightarrow> clause" where
  "wrappedQuery ctx withVarsVariables statement =
     (let countResult =
            RawCypherCallback (\<lambda>env.
              if subscriptionsEnabled ctx then ((''meta as update_meta'', []), env)
              else ((''COUNT(*) AS _'', []), env));
          returnStatement = Return [ColumnRaw countResult];
          withStatement = With (map Column withVarsVariables);
          callStatement = Call (concatClauses [Some statement, Some returnStatement]) withVarsVariables;
          subqueryClause = concatClauses [Some withStatement, Some callStatement];
          dropped =
            (if subscriptionsEnabled ctx then
               let afterCallWithStatement = With [Star, ColumnAs (NamedVariable ''update_meta'') ''meta'']
               in Some (concatClauses [Some subqueryClause, Some afterCallWithStatement])
             else None)
      in subqueryClause)"

text \<open>
  \<open>createConnectOrCreateAndParams\<close>: the conflict check of every item, then the statements,
  their wrapping, and the build of the sequence under the prefix \<open>varName_\<close>. A throw is the
  left summand; the callback bucket is returned beside the result.
\<close>

definition createConnectOrCreateAndParams ::
  "'b externals \<Rightarrow> createOrConnectInput oneOrMany \<Rightarrow> string \<Rightarrow> string \<Rightarrow> relationField \<Rightarrow> node \<Rightarrow> node
     \<Rightarrow> Context \<Rightarrow> string list \<Rightarrow> 'b \<Rightarrow> (error + cypherResult) \<times> 'b" where
  "createConnectOrCreateAndParams ext input varName parentVar relationField refNode node ctx withVars
       callbackBucket =
     (case checkConflictingProperties ext refNode (asArray input) of
        Some e \<Rightarrow> (Inl e, callbackBucket)
      | None \<Rightarrow>
          (let withVarsVariables = map NamedVariable withVars;
               (stmts, bucket1) =
                  statements ext varName parentVar relationField refNode node ctx withVars
                    (asArray input) 0 callbackBucket;
               wrappedQueries = map (wrappedQuery ctx withVarsVariables) stmts;
               query = concatClauses (map Some wrappedQueries)
           in (Inr (build query (varName @ ''_'')), bucket1)))"

section \<open>A small schema for closed instances\<close>

text \<open>
  Stand-ins for the collaborators, used where a statement is instantiated: a conflict
  detector that reports the input keys resolving to a database property another key also
  resolves to, labels equal to the type name, a callback registration that counts the
  registrations in the bucket, a fixed auth predicate, and a meta filter that drops the
  variable \<open>meta\<close>.
\<close>

definition exampleDbName :: "node \<Rightarrow> string \<Rightarrow> string" where
  "exampleDbName n key =
     (case find (\<lambda>f. fieldName f = key) (constrainableFields n) of
        None \<Rightarrow> key
      | Some f \<Rightarrow> (case dbPropertyName f of None \<Rightarrow> key | Some d \<Rightarrow> d))"

definition exampleExternals :: "nat externals" where
  "exampleExternals =
     \<lparr>findConflictingProperties =
        (\<lambda>n inp. case inp of None \<Rightarrow> []
           | Some r \<Rightarrow> filter (\<lambda>k. \<exists>k' \<in> set (keys r). k' \<noteq> k \<and> exampleDbName n k' = exampleDbName n k) (keys r)),
      asArrayValue = (\<lambda>v. case v of JList xs \<Rightarrow> v | _ \<Rightarrow> JList [v]),
      getLabels = (\<lambda>n c. [name n]),
      addCallbackAndSetParamCypher =
        (\<lambda>f v p b operation n.
           (Some (PropertyRef n (fieldName f), RawCypherString (''$resolvedCallbacks.'' @ fieldName f)), Suc b)),
      createAuthAndParams = (\<lambda>entity operations c allow escapeQuotes. (''$jwt.sub = this.owner'', [(''jwt'', JStr ''u1'')])),
      AUTH_FORBIDDEN_ERROR = ''Forbidden'',
      createRelEventMeta =
        (\<lambda>event relVariable fromVariable toVariable typename fromTypename toTypename.
           ''meta + { event: '' @ event @ '', rel: '' @ relVariable @ '', from: '' @ fromVariable
             @ '', to: '' @ toVariable @ '' } AS meta''),
      filterMetaVariable = filter (\<lambda>v. v \<noteq> ''meta'')\<rparr>"

definition exampleField :: "string \<Rightarrow> string option \<Rightarrow> string \<Rightarrow> bool \<Rightarrow> field" where
  "exampleField fname dbName ty isArray =
     \<lparr>fieldName = fname, dbPropertyName = dbName, typeMeta = \<lparr>typeName = ty, array = isArray\<rparr>,
      autogenerate = False, callback = None, timestamps = None\<rparr>"

definition exampleMovie :: node where
  "exampleMovie =
     \<lparr>name = ''Movie'',
      primitiveFields =
        [(exampleField ''id'' (Some ''id'') ''ID'' False)\<lparr>autogenerate := True\<rparr>,
         exampleField ''title'' (Some ''title'') ''String'' False,
         exampleField ''alias'' (Some ''title'') ''String'' False,
         exampleField ''tags'' (Some ''tagList'') ''String'' True,
         (exampleField ''slug'' (Some ''slug'') ''String'' False)\<lparr>callback := Some ''slugify''\<rparr>],
      temporalFields =
        [(exampleField ''createdAt'' (Some ''createdAt'') ''DateTime'' False)\<lparr>timestamps := Some [''CREATE'']\<rparr>],
      constrainableFields =
        [(exampleField ''id'' (Some ''id'') ''ID'' False)\<lparr>autogenerate := True\<rparr>,
         exampleField ''title'' (Some ''title'') ''String'' False,
         exampleField ''alias'' (Some ''title'') ''String'' False,
         exampleField ''tags'' (Some ''tagList'') ''String'' True],
      auth = None\<rparr>"

definition exampleActor :: node where
  "exampleActor =
     \<lparr>name = ''Actor'', primitiveFields = [], temporalFields = [], constrainableFields = [], auth = None\<rparr>"

definition exampleContext :: Context where
  "exampleContext = \<lparr>subscriptionsEnabled = False, relationships = []\<rparr>"

definition exampleRelationField :: relationField where
  "exampleRelationField = \<lparr>direction = ''OUT'', relType = ''ACTED_IN'', relProperties = None\<rparr>"

definition exampleInput :: "string \<Rightarrow> createOrConnectInput" where
  "exampleInput t =
     \<lparr>where_node = Some [(''title'', JStr t)], onCreate_node = Some [(''title'', JStr t)], onCreate_edge = None\<rparr>"

definition conflictingInput :: createOrConnectInput where
  "conflictingInput =
     \<lparr>where_node = Some [(''title'', JStr ''t'')],
      onCreate_node = Some [(''title'', JStr ''x''), (''alias'', JStr ''y'')],
      onCreate_edge = None\<rparr>"

definition exampleSecuredMovie :: node where
  "exampleSecuredMovie = exampleMovie\<lparr>auth := Some (JObject [(''rules'', JList [])])\<rparr>"

definition exampleSubscriptionContext :: Context where
  "exampleSubscriptionContext = exampleContext\<lparr>subscriptionsEnabled := True\<rparr>"

text \<open>
  A type whose two temporal fields are stored in one database property, and an input that
  gives an explicit value for a property that also has a generated default.
\<close>

definition exampleSchedule :: node where
  "exampleSchedule =
     \<lparr>name = ''Schedule'', primitiveFields = [],
      temporalFields =
        [(exampleField ''startsAt'' (Some ''start'') ''DateTime'' False)\<lparr>timestamps := Some [''CREATE'']\<rparr>,
         (exampleField ''startTime'' (Some ''start'') ''Time'' False)\<lparr>timestamps := Some [''CREATE'']\<rparr>],
      constrainableFields = [], auth = None\<rparr>"


section \<open>Decimal indices\<close>






section \<open>The statements of a batch\<close>





section \<open>Sequencing clauses\<close>

text \<open>
  C6. For all clauses \<open>a\<close>, \<open>b\<close>, \<open>c\<close>, \<open>concat(concat(a, b), c)\<close> and \<open>concat(a, concat(b, c))\<close>
  render the same text and leave the same environment, from every environment; so the two
  builds give the same query text and the same parameter table.
\<close>

theorem concat_associative:
  "getCypher (concatClauses [Some (concatClauses [Some a, Some b]), Some c]) env
     = getCypher (concatClauses [Some a, Some (concatClauses [Some b, Some c])]) env
   \<and> build (concatClauses [Some (concatClauses [Some a, Some b]), Some c]) p
     = build (concatClauses [Some a, Some (concatClauses [Some b, Some c])]) p"
  by (simp add: build_def concatClauses_def List.map_filter_simps split: prod.splits)

section \<open>Conflicting properties\<close>

lemma checkConflictingProperties_first:
  "item \<in> set items \<Longrightarrow> findConflictingProperties ext refNode (onCreate_node item) \<noteq> [] \<Longrightarrow>
     \<exists>pre it post. items = pre @ it # post
        \<and> (\<forall>x \<in> set pre. findConflictingProperties ext refNode (onCreate_node x) = [])
        \<and> findConflictingProperties ext refNode (onCreate_node it) \<noteq> []
        \<and> checkConflictingProperties ext refNode items
            = Some (Neo4jGraphQLError
                (''Conflicting modification of ''
                   @ join '', '' (map (\<lambda>n. ''[['' @ n @ '']]'') (findConflictingProperties ext refNode (onCreate_node it)))
                   @ '' on type '' @ name refNode))"
proof (induction items)
  case Nil
  then show ?case by simp
next
  case (Cons x xs)
  show ?case
  proof (cases "findConflictingProperties ext refNode (onCreate_node x) = []")
    case True
    with Cons.prems have "item \<in> set xs" by auto
    from Cons.IH[OF this Cons.prems(2)] obtain pre it post where
      p: "xs = pre @ it # post"
         "\<forall>x \<in> set pre. findConflictingProperties ext refNode (onCreate_node x) = []"
         "findConflictingProperties ext refNode (onCreate_node it) \<noteq> []"
         "checkConflictingProperties ext refNode xs
            = Some (Neo4jGraphQLError
                (''Conflicting modification of ''
                   @ join '', '' (map (\<lambda>n. ''[['' @ n @ '']]'') (findConflictingProperties ext refNode (onCreate_node it)))
                   @ '' on type '' @ name refNode))"
      by blast
    show ?thesis
      apply (rule exI[of _ "x # pre"], rule exI[of _ it], rule exI[of _ post])
      using p True by simp
  next
    case False
    show ?thesis
      apply (rule exI[of _ "[]"], rule exI[of _ x], rule exI[of _ xs])
      using False by simp
  qed
qed

text \<open>
  C1. For a single item or a list passed to \<open>createConnectOrCreateAndParams\<close>: when the conflict
  check reports conflicting properties for some item's \<open>onCreate.node\<close>, the call throws; the
  error is the one for the first such item, its message lists the conflicting fields, each
  in double brackets, and names the node type; nothing has been built by then: the result
  holds no query and the callback bucket is the one passed in.
\<close>

theorem conflict_raised_before_building:
  assumes "item \<in> set (asArray input)"
    and "findConflictingProperties ext refNode (onCreate_node item) \<noteq> []"
  shows "\<exists>pre it post. asArray input = pre @ it # post
        \<and> (\<forall>x \<in> set pre. findConflictingProperties ext refNode (onCreate_node x) = [])
        \<and> findConflictingProperties ext refNode (onCreate_node it) \<noteq> []
        \<and> createConnectOrCreateAndParams ext input varName parentVar rf refNode node ctx withVars b
            = (Inl (Neo4jGraphQLError
                (''Conflicting modification of ''
                   @ join '', '' (map (\<lambda>n. ''[['' @ n @ '']]'') (findConflictingProperties ext refNode (onCreate_node it)))
                   @ '' on type '' @ name refNode)), b)"
proof -
  from checkConflictingProperties_first[OF assms] obtain pre it post where
    p: "asArray input = pre @ it # post"
       "\<forall>x \<in> set pre. findConflictingProperties ext refNode (onCreate_node x) = []"
       "findConflictingProperties ext refNode (onCreate_node it) \<noteq> []"
       "checkConflictingProperties ext refNode (asArray input)
          = Some (Neo4jGraphQLError
              (''Conflicting modification of ''
                 @ join '', '' (map (\<lambda>n. ''[['' @ n @ '']]'') (findConflictingProperties ext refNode (onCreate_node it)))
                 @ '' on type '' @ name refNode))"
    by blast
  from p(4) have "createConnectOrCreateAndParams ext input varName parentVar rf refNode node ctx withVars b
            = (Inl (Neo4jGraphQLError
                (''Conflicting modification of ''
                   @ join '', '' (map (\<lambda>n. ''[['' @ n @ '']]'') (findConflictingProperties ext refNode (onCreate_node it)))
                   @ '' on type '' @ name refNode)), b)"
    by (simp add: createConnectOrCreateAndParams_def)
  with p(1,2,3) show ?thesis by blast
qed

theorem conflict_raised_before_building_witness:
  "conflictingInput \<in> set (asArray (Many [exampleInput ''a'', conflictingInput]))
   \<and> findConflictingProperties exampleExternals exampleMovie (onCreate_node conflictingInput) \<noteq> []
   \<and> (\<exists>pre it post. asArray (Many [exampleInput ''a'', conflictingInput]) = pre @ it # post
        \<and> (\<forall>x \<in> set pre. findConflictingProperties exampleExternals exampleMovie (onCreate_node x) = [])
        \<and> findConflictingProperties exampleExternals exampleMovie (onCreate_node it) \<noteq> []
        \<and> createConnectOrCreateAndParams exampleExternals (Many [exampleInput ''a'', conflictingInput])
             ''this_movies'' ''this'' exampleRelationField exampleMovie exampleActor exampleContext [''this''] 0
            = (Inl (Neo4jGraphQLError
                (''Conflicting modification of ''
                   @ join '', '' (map (\<lambda>n. ''[['' @ n @ '']]'')
                       (findConflictingProperties exampleExternals exampleMovie (onCreate_node it)))
                   @ '' on type '' @ name exampleMovie)), 0))
   \<and> createConnectOrCreateAndParams exampleExternals (Many [exampleInput ''a'', conflictingInput])
         ''this_movies'' ''this'' exampleRelationField exampleMovie exampleActor exampleContext [''this''] 0
       = (Inl (Neo4jGraphQLError ''Conflicting modification of [[title]], [[alias]] on type Movie''), 0)"
proof -
  have h1: "conflictingInput \<in> set (asArray (Many [exampleInput ''a'', conflictingInput]))"
    by (simp add: asArray_def)
  have c: "findConflictingProperties exampleExternals exampleMovie (onCreate_node conflictingInput)
             = [''title'', ''alias'']"
    by (simp add: exampleExternals_def conflictingInput_def exampleMovie_def exampleDbName_def keys_def
          exampleField_def)
  have n: "findConflictingProperties exampleExternals exampleMovie (onCreate_node (exampleInput ''a'')) = []"
    by (simp add: exampleExternals_def exampleInput_def exampleMovie_def exampleDbName_def keys_def
          exampleField_def)
  have h2: "findConflictingProperties exampleExternals exampleMovie (onCreate_node conflictingInput) \<noteq> []"
    by (simp add: c)
  have e: "createConnectOrCreateAndParams exampleExternals (Many [exampleInput ''a'', conflictingInput])
         ''this_movies'' ''this'' exampleRelationField exampleMovie exampleActor exampleContext [''this''] 0
       = (Inl (Neo4jGraphQLError ''Conflicting modification of [[title]], [[alias]] on type Movie''), 0)"
    by (simp add: createConnectOrCreateAndParams_def asArray_def c n) (simp add: exampleMovie_def)
  from conflict_raised_before_building[OF h1 h2, of "''this_movies''" "''this''" exampleRelationField
      exampleActor exampleContext "[''this'']" 0]
  show ?thesis using h1 h2 e by blast
qed

section \<open>Names are memoised\<close>

lemma nameFor_known: "map_of (references env) r = Some n \<Longrightarrow> nameFor env r = (n, env)"
  by (simp add: nameFor_def)

lemma nameFor_records: "map_of (references (snd (nameFor env r))) r = Some (fst (nameFor env r))"
  by (cases "map_of (references env) r") (auto simp: nameFor_def Let_def map_add_def)

lemma nameFor_keeps:
  "map_of (references env) r = Some n \<Longrightarrow> map_of (references (snd (nameFor env r'))) r = Some n"
  by (cases "map_of (references env) r'") (auto simp: nameFor_def Let_def)

lemma nameFor_params: "params (snd (nameFor env r)) = params env"
  by (cases "map_of (references env) r") (auto simp: nameFor_def Let_def)






section \<open>Wrapping a statement in a subquery\<close>



section \<open>The clauses of a partial statement\<close>

lemma map_of_fold_assign:
  "map_of (fold (\<lambda>(key, v) acc. assign key v acc) ps acc) = map_of acc ++ map_of (rev ps)"
proof (induction ps arbitrary: acc)
  case Nil
  then show ?case by simp
next
  case (Cons p ps)
  obtain k v where p: "p = (k, v)" by (cases p)
  have "map_of (fold (\<lambda>(key, v) acc. assign key v acc) (p # ps) acc)
          = map_of (assign k v acc) ++ map_of (rev ps)"
    using Cons.IH[of "assign k v acc"] p by simp
  also have "map_of (assign k v acc) = (map_of acc)(k \<mapsto> v)"
    by (simp add: assign_def update_conv')
  also have "(map_of acc)(k \<mapsto> v) ++ map_of (rev ps) = map_of acc ++ map_of (rev (p # ps))"
    by (simp add: p map_add_upd_left map_add_assoc fun_eq_iff map_add_def split: option.splits)
  finally show ?case .
qed

lemma values_assign: "snd ` set (assign key v acc) \<subseteq> insert v (snd ` set acc)"
  by (induction acc) (auto simp: assign_def)

lemma values_fold_assign:
  "snd ` set (fold (\<lambda>(key, v) acc. assign key v acc) ps acc) \<subseteq> snd ` set ps \<union> snd ` set acc"
proof (induction ps arbitrary: acc)
  case Nil
  then show ?case by simp
next
  case (Cons p ps)
  obtain k v where p: "p = (k, v)" by (cases p)
  from Cons.IH[of "assign k v acc"] values_assign[of k v acc] show ?case
    by (auto simp: p)
qed

lemma values_spread: "snd ` set (spread a b) \<subseteq> snd ` set a \<union> snd ` set b"
proof -
  have "snd ` set (fold (\<lambda>(key, v) acc. assign key v acc) a []) \<subseteq> snd ` set a"
    using values_fold_assign[of a "[]"] by simp
  with values_fold_assign[of b "fold (\<lambda>(key, v) acc. assign key v acc) a []"]
  show ?thesis by (auto simp: spread_def)
qed

lemma values_fold_optional_assign:
  "snd ` set (fold (\<lambda>field acc.
                    case dbPropertyName field of
                      None \<Rightarrow> acc
                    | Some dbName \<Rightarrow> if dbName \<noteq> [] then assign dbName (g field) acc else acc) fs acc)
     \<subseteq> g ` set fs \<union> snd ` set acc"
proof (induction fs arbitrary: acc)
  case Nil
  then show ?case by simp
next
  case (Cons f fs)
  show ?case
  proof (cases "dbPropertyName f")
    case None
    with Cons.IH[of acc] show ?thesis by auto
  next
    case (Some d)
    show ?thesis
    proof (cases "d = []")
      case True
      with Some Cons.IH[of acc] show ?thesis by auto
    next
      case False
      with Some Cons.IH[of "assign d (g f) acc"] values_assign[of d "g f" acc] show ?thesis
        by auto
    qed
  qed
qed

lemma values_spread_optional_assign:
  "p \<in> snd ` set (spread
        (fold (\<lambda>field acc.
                    case dbPropertyName field of
                      None \<Rightarrow> acc
                    | Some dbName \<Rightarrow> if dbName \<noteq> [] then assign dbName (g1 field) acc else acc) fs1 [])
        (fold (\<lambda>field acc.
                    case dbPropertyName field of
                      None \<Rightarrow> acc
                    | Some dbName \<Rightarrow> if dbName \<noteq> [] then assign dbName (g2 field) acc else acc) fs2 []))
     \<Longrightarrow> p \<in> g1 ` set fs1 \<union> g2 ` set fs2"
proof -
  let ?a = "fold (\<lambda>field acc.
                    case dbPropertyName field of
                      None \<Rightarrow> acc
                    | Some dbName \<Rightarrow> if dbName \<noteq> [] then assign dbName (g1 field) acc else acc) fs1 []"
  let ?b = "fold (\<lambda>field acc.
                    case dbPropertyName field of
                      None \<Rightarrow> acc
                    | Some dbName \<Rightarrow> if dbName \<noteq> [] then assign dbName (g2 field) acc else acc) fs2 []"
  assume "p \<in> snd ` set (spread ?a ?b)"
  with values_spread[of ?a ?b] have "p \<in> snd ` set ?a \<union> snd ` set ?b" by (rule subsetD)
  moreover have "snd ` set ?a \<subseteq> g1 ` set fs1"
    using values_fold_optional_assign[of g1 fs1 "[]"] by simp
  moreover have "snd ` set ?b \<subseteq> g2 ` set fs2"
    using values_fold_optional_assign[of g2 fs2 "[]"] by simp
  ultimately show ?thesis by blast
qed

lemma getAutogeneratedParams_values:
  assumes "p \<in> snd ` set (getAutogeneratedParams n)"
  shows "\<exists>s. p = RawCypherParam (RawCypherString s)"
proof -
  from assms have "p \<in> (\<lambda>field. RawCypherParam (RawCypherString (toLowerCase (typeName (typeMeta field)) @ ''()'')))
                       ` set (filter (\<lambda>field. typeName (typeMeta field) \<in> set [''DateTime'', ''Time'']
                            \<and> (case timestamps field of None \<Rightarrow> False | Some ts \<Rightarrow> ''CREATE'' \<in> set ts))
                         (temporalFields n))
                   \<union> (\<lambda>field. RawCypherParam (RawCypherString ''randomUUID()''))
                       ` set (filter (\<lambda>f. autogenerate f) (primitiveFields n))"
    unfolding getAutogeneratedParams_def Let_def by (rule values_spread_optional_assign)
  then show ?thesis by blast
qed

lemma convertToCypherParams_values:
  "p \<in> snd ` set (convertToCypherParams xs) \<Longrightarrow> \<exists>v. p = Param v"
  by (auto simp: convertToCypherParams_def)

lemma renderParam_plain_references:
  "(\<And>cb. p \<noteq> RawCypherParam (RawCypherCallback cb)) \<Longrightarrow>
     references (snd (renderParam p env)) = references env"
proof (cases p)
  case (Param v)
  then show ?thesis by (simp add: addParam_def Let_def)
next
  case (RawCypherParam raw)
  assume "\<And>cb. p \<noteq> RawCypherParam (RawCypherCallback cb)"
  with RawCypherParam show ?thesis by (cases raw) auto
qed

lemma renderSetParams_references:
  assumes "map_of (references env) r = Some n"
    and "\<And>sp. sp \<in> set sets \<Longrightarrow> (\<exists>key. fst sp = PropertyRef r key)
                                  \<and> (\<forall>cb. snd sp \<noteq> RawCypherParam (RawCypherCallback cb))"
  shows "references (snd (mapEnv renderSetParam sets env)) = references env"
  using assms
proof (induction sets arbitrary: env)
  case Nil
  then show ?case by simp
next
  case (Cons sp sps)
  from Cons.prems(2)[of sp] obtain key where k: "fst sp = PropertyRef r key"
    and plain: "\<And>cb. snd sp \<noteq> RawCypherParam (RawCypherCallback cb)" by auto
  have step: "references (snd (renderSetParam sp env)) = references env"
    by (simp add: renderSetParam_def k nameFor_known[OF Cons.prems(1)] split_beta
          renderParam_plain_references[OF plain])
  then have "map_of (references (snd (renderSetParam sp env))) r = Some n"
    using Cons.prems(1) by simp
  from Cons.IH[OF this] Cons.prems(2) step show ?case by (simp add: split_beta)
qed

lemma relationshipMerge_then_callback:
  assumes "relationship = RelationshipRef source target ty"
    and "\<And>sp. sp \<in> set sets \<Longrightarrow> (\<exists>key. fst sp = PropertyRef relationship key)
                                    \<and> (\<forall>cb. snd sp \<noteq> RawCypherParam (RawCypherCallback cb))"
    and "env' = snd (getCypher (Merge relationship [] sets) env)"
  shows "\<exists>sn rn tn setText.
           fst (getCypher (Merge relationship [] sets) env)
             = ''MERGE ('' @ sn @ '')-['' @ rn @ '':'' @ ty @ '']->('' @ tn @ '')'' @ setText
         \<and> nameFor env' relationship = (rn, env')
         \<and> nameFor env' source = (sn, env')
         \<and> nameFor env' target = (tn, env')"
proof -
  let ?e1 = "snd (nameFor env source)"
  let ?sn = "fst (nameFor env source)"
  let ?e2 = "snd (nameFor ?e1 relationship)"
  let ?rn = "fst (nameFor ?e1 relationship)"
  let ?e3 = "snd (nameFor ?e2 target)"
  let ?tn = "fst (nameFor ?e2 target)"
  let ?e4 = "snd (mapEnv renderSetParam sets ?e3)"
  let ?sets = "fst (mapEnv renderSetParam sets ?e3)"
  have s3: "map_of (references ?e3) source = Some ?sn"
    by (intro nameFor_keeps nameFor_records)
  have r3: "map_of (references ?e3) relationship = Some ?rn"
    by (intro nameFor_keeps nameFor_records)
  have t3: "map_of (references ?e3) target = Some ?tn"
    by (rule nameFor_records)
  have refs: "references ?e4 = references ?e3"
    by (rule renderSetParams_references[OF r3 assms(2)])
  have e': "env' = ?e4"
    by (simp add: assms(1,3) renderProperties_def split_beta Let_def)
  have rendered: "fst (getCypher (Merge relationship [] sets) env)
             = ''MERGE ('' @ ?sn @ '')-['' @ ?rn @ '':'' @ ty @ '']->('' @ ?tn @ '')''
                 @ (if ?sets = [] then [] else [CHR 0x0A] @ ''ON CREATE SET '' @ join '', '' ?sets)"
    by (simp add: assms(1) renderProperties_def split_beta Let_def)
  show ?thesis
    apply (rule exI[of _ ?sn], rule exI[of _ ?rn], rule exI[of _ ?tn])
    apply (rule exI[of _ "if ?sets = [] then [] else [CHR 0x0A] @ ''ON CREATE SET '' @ join '', '' ?sets"])
    apply (intro conjI)
       apply (rule rendered)
      apply (rule nameFor_known, simp only: e' refs r3)
     apply (rule nameFor_known, simp only: e' refs s3)
    apply (rule nameFor_known, simp only: e' refs t3)
    done
qed

lemma rawRelationshipParams_plain:
  assumes "sp \<in> set (map (\<lambda>(key, p). (PropertyRef relationship key, p))
                      (spread (case r of None \<Rightarrow> [] | Some x \<Rightarrow> getAutogeneratedParams x)
                         (convertToCypherParams edge)))"
  shows "(\<exists>key. fst sp = PropertyRef relationship key)
       \<and> (\<forall>cb. snd sp \<noteq> RawCypherParam (RawCypherCallback cb))"
proof -
  from assms obtain key p where sp: "sp = (PropertyRef relationship key, p)"
    and "(key, p) \<in> set (spread (case r of None \<Rightarrow> [] | Some x \<Rightarrow> getAutogeneratedParams x)
                         (convertToCypherParams edge))"
    by auto
  then have "p \<in> snd ` set (spread (case r of None \<Rightarrow> [] | Some x \<Rightarrow> getAutogeneratedParams x)
                         (convertToCypherParams edge))"
    by force
  then have "p \<in> snd ` set (case r of None \<Rightarrow> [] | Some x \<Rightarrow> getAutogeneratedParams x)
                 \<union> snd ` set (convertToCypherParams edge)"
    by (rule subsetD[OF values_spread])
  then have "p \<in> snd ` set (case r of None \<Rightarrow> [] | Some x \<Rightarrow> getAutogeneratedParams x)
                        \<or> p \<in> snd ` set (convertToCypherParams edge)"
    by simp
  then have "\<forall>cb. p \<noteq> RawCypherParam (RawCypherCallback cb)"
  proof
    assume a: "p \<in> snd ` set (case r of None \<Rightarrow> [] | Some x \<Rightarrow> getAutogeneratedParams x)"
    then obtain x where "r = Some x" and "p \<in> snd ` set (getAutogeneratedParams x)"
      by (cases r) auto
    from getAutogeneratedParams_values[OF this(2)] show ?thesis by auto
  next
    assume "p \<in> snd ` set (convertToCypherParams edge)"
    from convertToCypherParams_values[OF this] show ?thesis by auto
  qed
  with sp show ?thesis by simp
qed

text \<open>
  C7. The clause \<open>mergeStatement\<close> returns is the sequence of the node merge and the
  relationship merge, followed, exactly when \<open>context.subscriptionsEnabled\<close> holds, by a raw
  clause. Its callback asks the environment at render time for the names of the merged
  relationship, of its source and of its target, hands them to \<open>createRelEventMeta\<close> and
  returns \<open>WITH\<close>, that event text, and \<open>filterMetaVariable\<close> of \<open>withVars\<close> and the
  variable name, joined by commas, with no parameters. Run on the environment the
  relationship merge leaves, the callback finds the three names already allocated: they
  are the names in the \<open>MERGE\<close> pattern, and the environment stays as it is.
\<close>

theorem mergeStatement_subscriptions_with:
  assumes "mergeNode = NamedNode varName (getLabels ext refNode ctx)"
    and "source = (if direction rf = ''IN'' then mergeNode else parentNode)"
    and "target = (if direction rf = ''IN'' then parentNode else mergeNode)"
    and "relationship = RelationshipRef source target (relType rf)"
    and "fromTypename = (if direction rf = ''IN'' then name refNode else name parentRefNode)"
    and "toTypename = (if direction rf = ''IN'' then name parentRefNode else name refNode)"
    and "withCallback = (\<lambda>env.
            let (relVariable, env1) = nameFor env relationship;
                (fromVariable, env2) = nameFor env1 source;
                (toVariable, env3) = nameFor env2 target
            in ((''WITH ''
                  @ createRelEventMeta ext ''connect'' relVariable fromVariable toVariable (relType rf)
                      fromTypename toTypename
                  @ '', '' @ join '', '' (filterMetaVariable ext (withVars @ [varName])), []), env3))"
  shows "\<exists>whereParams onCreateParams onCreateRelationshipParams.
           fst (mergeStatement ext input refNode parentRefNode ctx rf parentNode varName b withVars)
             = CompositeClause
                 (Merge mergeNode whereParams onCreateParams
                  # Merge relationship [] onCreateRelationshipParams
                  # (if subscriptionsEnabled ctx then [RawCypher (RawCypherCallback withCallback)] else []))
         \<and> (\<forall>env. \<exists>sn rn tn setText.
                fst (getCypher (Merge relationship [] onCreateRelationshipParams) env)
                  = ''MERGE ('' @ sn @ '')-['' @ rn @ '':'' @ relType rf @ '']->('' @ tn @ '')'' @ setText
              \<and> withCallback (snd (getCypher (Merge relationship [] onCreateRelationshipParams) env))
                  = ((''WITH ''
                       @ createRelEventMeta ext ''connect'' rn sn tn (relType rf) fromTypename toTypename
                       @ '', '' @ join '', '' (filterMetaVariable ext (withVars @ [varName])), []),
                     snd (getCypher (Merge relationship [] onCreateRelationshipParams) env)))"
proof -
  define sets where "sets =
    map (\<lambda>(key, p). (PropertyRef relationship key, p))
      (spread (case find (\<lambda>x. properties x = relProperties rf) (relationships ctx) of
                 None \<Rightarrow> [] | Some r \<Rightarrow> getAutogeneratedParams r)
         (convertToCypherParams (case onCreate_edge input of None \<Rightarrow> [] | Some edge \<Rightarrow> edge)))"
  have shape: "\<exists>whereParams onCreateParams.
           fst (mergeStatement ext input refNode parentRefNode ctx rf parentNode varName b withVars)
             = CompositeClause
                 (Merge mergeNode whereParams onCreateParams
                  # Merge relationship [] sets
                  # (if subscriptionsEnabled ctx then [RawCypher (RawCypherCallback withCallback)] else []))"
    using assms
    by (simp add: sets_def mergeStatement_def concatClauses_def Let_def split_beta List.map_filter_simps)
  have plain: "(\<exists>key. fst sp = PropertyRef relationship key)
                 \<and> (\<forall>cb. snd sp \<noteq> RawCypherParam (RawCypherCallback cb))"
    if "sp \<in> set sets" for sp
    using that unfolding sets_def by (rule rawRelationshipParams_plain)
  have names: "\<exists>sn rn tn setText.
                fst (getCypher (Merge relationship [] sets) env)
                  = ''MERGE ('' @ sn @ '')-['' @ rn @ '':'' @ relType rf @ '']->('' @ tn @ '')'' @ setText
              \<and> withCallback (snd (getCypher (Merge relationship [] sets) env))
                  = ((''WITH ''
                       @ createRelEventMeta ext ''connect'' rn sn tn (relType rf) fromTypename toTypename
                       @ '', '' @ join '', '' (filterMetaVariable ext (withVars @ [varName])), []),
                     snd (getCypher (Merge relationship [] sets) env))" for env
  proof -
    from relationshipMerge_then_callback[OF assms(4) plain refl, where env = env]
    obtain sn rn tn setText where
      m: "fst (getCypher (Merge relationship [] sets) env)
            = ''MERGE ('' @ sn @ '')-['' @ rn @ '':'' @ relType rf @ '']->('' @ tn @ '')'' @ setText"
      and r: "nameFor (snd (getCypher (Merge relationship [] sets) env)) relationship
                = (rn, snd (getCypher (Merge relationship [] sets) env))"
      and s: "nameFor (snd (getCypher (Merge relationship [] sets) env)) source
                = (sn, snd (getCypher (Merge relationship [] sets) env))"
      and t: "nameFor (snd (getCypher (Merge relationship [] sets) env)) target
                = (tn, snd (getCypher (Merge relationship [] sets) env))"
      by blast
    have "withCallback (snd (getCypher (Merge relationship [] sets) env))
                  = ((''WITH ''
                       @ createRelEventMeta ext ''connect'' rn sn tn (relType rf) fromTypename toTypename
                       @ '', '' @ join '', '' (filterMetaVariable ext (withVars @ [varName])), []),
                     snd (getCypher (Merge relationship [] sets) env))"
      by (simp only: assms(7) r s t Let_def split_conv)
    with m show ?thesis by blast
  qed
  from shape names show ?thesis by blast
qed

theorem mergeStatement_subscriptions_with_witness:
  "NamedNode ''this_movies0'' [''Movie'']
      = NamedNode ''this_movies0'' (getLabels exampleExternals exampleMovie exampleSubscriptionContext)
   \<and> NamedNode ''this'' []
      = (if direction exampleRelationField = ''IN'' then NamedNode ''this_movies0'' [''Movie'']
         else NamedNode ''this'' [])
   \<and> NamedNode ''this_movies0'' [''Movie'']
      = (if direction exampleRelationField = ''IN'' then NamedNode ''this'' []
         else NamedNode ''this_movies0'' [''Movie''])
   \<and> RelationshipRef (NamedNode ''this'' []) (NamedNode ''this_movies0'' [''Movie'']) ''ACTED_IN''
      = RelationshipRef (NamedNode ''this'' []) (NamedNode ''this_movies0'' [''Movie''])
          (relType exampleRelationField)
   \<and> ''Actor'' = (if direction exampleRelationField = ''IN'' then name exampleMovie else name exampleActor)
   \<and> ''Movie'' = (if direction exampleRelationField = ''IN'' then name exampleActor else name exampleMovie)
   \<and> (\<exists>whereParams onCreateParams onCreateRelationshipParams.
         fst (mergeStatement exampleExternals (exampleInput ''a'') exampleMovie exampleActor
                exampleSubscriptionContext exampleRelationField (NamedNode ''this'' []) ''this_movies0'' 0
                [''this'', ''meta''])
           = CompositeClause
               (Merge (NamedNode ''this_movies0'' [''Movie'']) whereParams onCreateParams
                # Merge (RelationshipRef (NamedNode ''this'' []) (NamedNode ''this_movies0'' [''Movie''])
                           ''ACTED_IN'') [] onCreateRelationshipParams
                # (if subscriptionsEnabled exampleSubscriptionContext
                   then [RawCypher (RawCypherCallback (\<lambda>env.
                      let (relVariable, env1) =
                            nameFor env (RelationshipRef (NamedNode ''this'' [])
                                           (NamedNode ''this_movies0'' [''Movie'']) ''ACTED_IN'');
                          (fromVariable, env2) = nameFor env1 (NamedNode ''this'' []);
                          (toVariable, env3) = nameFor env2 (NamedNode ''this_movies0'' [''Movie''])
                      in ((''WITH ''
                            @ createRelEventMeta exampleExternals ''connect'' relVariable fromVariable toVariable
                                (relType exampleRelationField) ''Actor'' ''Movie''
                            @ '', '' @ join '', '' (filterMetaVariable exampleExternals
                                                       ([''this'', ''meta''] @ [''this_movies0''])), []), env3)))]
                   else [])))"
proof -
  have h1: "NamedNode ''this_movies0'' [''Movie'']
      = NamedNode ''this_movies0'' (getLabels exampleExternals exampleMovie exampleSubscriptionContext)"
    by (simp add: exampleExternals_def exampleMovie_def)
  have h2: "NamedNode ''this'' []
      = (if direction exampleRelationField = ''IN'' then NamedNode ''this_movies0'' [''Movie'']
         else NamedNode ''this'' [])"
    by (simp add: exampleRelationField_def)
  have h3: "NamedNode ''this_movies0'' [''Movie'']
      = (if direction exampleRelationField = ''IN'' then NamedNode ''this'' []
         else NamedNode ''this_movies0'' [''Movie''])"
    by (simp add: exampleRelationField_def)
  have h4: "RelationshipRef (NamedNode ''this'' []) (NamedNode ''this_movies0'' [''Movie'']) ''ACTED_IN''
      = RelationshipRef (NamedNode ''this'' []) (NamedNode ''this_movies0'' [''Movie''])
          (relType exampleRelationField)"
    by (simp add: exampleRelationField_def)
  have h5: "''Actor'' = (if direction exampleRelationField = ''IN'' then name exampleMovie else name exampleActor)"
    by (simp add: exampleRelationField_def exampleActor_def)
  have h6: "''Movie'' = (if direction exampleRelationField = ''IN'' then name exampleActor else name exampleMovie)"
    by (simp add: exampleRelationField_def exampleMovie_def)
  from mergeStatement_subscriptions_with[OF h1 h2 h3 h4 h5 h6 refl,
      where input = "exampleInput ''a''" and withVars = "[''this'', ''meta'']" and b = 0]
  show ?thesis using h1 h2 h3 h4 h5 h6 by blast
qed

text \<open>
  C10. \<open>createConnectOrCreatePartialStatement\<close> returns the merge query followed by \<open>WITH *\<close>
  and a raw auth clause exactly when the referenced node has auth rules and
  \<open>createAuthAndParams\<close> gives a non-empty predicate; otherwise it returns the merge query
  unchanged. The sequence renders as the merge text, \<open>WITH *\<close> and
  \<open>CALL apoc.util.validate(NOT (predicate), "message", [0])\<close> on three lines, and the auth
  parameters are assigned into the parameter table of the build.
\<close>

theorem partialStatement_auth:
  assumes "mergeStatement ext input refNode node ctx rf (NamedNode parentVar []) baseName b withVars
             = (mergeQuery, b1)"
    and "createAuthAndParams ext refNode [''CONNECT'', ''CREATE''] ctx
             (refNode, baseName, baseName @ name refNode @ ''_allow'') False = (predicate, authParams)"
    and "validate = ''CALL apoc.util.validate(NOT ('' @ predicate @ ''), '' @ [CHR 0x22]
                      @ AUTH_FORBIDDEN_ERROR ext @ [CHR 0x22] @ '', [0])''"
    and "authQuery = RawCypher (RawCypherCallback (\<lambda>env. ((validate, authParams), env)))"
  shows "createConnectOrCreatePartialStatement ext input baseName parentVar rf refNode node ctx b withVars
           = (if auth refNode \<noteq> None \<and> predicate \<noteq> []
              then (CompositeClause [mergeQuery, With [Star], authQuery], b1)
              else (mergeQuery, b1))
       \<and> getCypher (CompositeClause [mergeQuery, With [Star], authQuery]) env
           = (fst (getCypher mergeQuery env) @ [CHR 0x0A] @ ''WITH *'' @ [CHR 0x0A] @ validate,
              (snd (getCypher mergeQuery env))
                \<lparr>params := fold (\<lambda>(key, v) acc. assign key v acc) authParams
                             (params (snd (getCypher mergeQuery env)))\<rparr>)
       \<and> (\<forall>k v. map_of (rev authParams) k = Some v \<longrightarrow>
             map_of (params (snd (getCypher (CompositeClause [mergeQuery, With [Star], authQuery]) env))) k
               = Some v)"
  (is "?shape \<and> ?render \<and> ?merged")
proof (intro conjI)
  show ?shape
    using assms
    by (simp add: createConnectOrCreatePartialStatement_def createAuthStatement_def concatClauses_def
          Let_def List.map_filter_simps)
next
  show r: ?render
    using assms(4) by (simp add: split_beta Let_def)
  show ?merged
    by (simp only: r snd_conv) (simp add: map_of_fold_assign map_add_def)
qed

theorem partialStatement_auth_witness:
  "mergeStatement exampleExternals (exampleInput ''a'') exampleSecuredMovie exampleActor exampleContext
       exampleRelationField (NamedNode ''this'' []) ''this_movies0'' 0 [''this'']
     = (fst (mergeStatement exampleExternals (exampleInput ''a'') exampleSecuredMovie exampleActor
               exampleContext exampleRelationField (NamedNode ''this'' []) ''this_movies0'' 0 [''this'']), 1)
   \<and> createAuthAndParams exampleExternals exampleSecuredMovie [''CONNECT'', ''CREATE''] exampleContext
         (exampleSecuredMovie, ''this_movies0'', ''this_movies0'' @ name exampleSecuredMovie @ ''_allow'') False
     = (''$jwt.sub = this.owner'', [(''jwt'', JStr ''u1'')])
   \<and> ''CALL apoc.util.validate(NOT ($jwt.sub = this.owner), '' @ [CHR 0x22] @ ''Forbidden'' @ [CHR 0x22] @ '', [0])''
     = ''CALL apoc.util.validate(NOT ('' @ ''$jwt.sub = this.owner'' @ ''), '' @ [CHR 0x22]
         @ AUTH_FORBIDDEN_ERROR exampleExternals @ [CHR 0x22] @ '', [0])''
   \<and> createConnectOrCreatePartialStatement exampleExternals (exampleInput ''a'') ''this_movies0'' ''this''
         exampleRelationField exampleSecuredMovie exampleActor exampleContext 0 [''this'']
     = (if auth exampleSecuredMovie \<noteq> None \<and> ''$jwt.sub = this.owner'' \<noteq> []
        then (CompositeClause
                [fst (mergeStatement exampleExternals (exampleInput ''a'') exampleSecuredMovie exampleActor
                        exampleContext exampleRelationField (NamedNode ''this'' []) ''this_movies0'' 0 [''this'']),
                 With [Star],
                 RawCypher (RawCypherCallback (\<lambda>env.
                   ((''CALL apoc.util.validate(NOT ($jwt.sub = this.owner), '' @ [CHR 0x22] @ ''Forbidden''
                       @ [CHR 0x22] @ '', [0])'', [(''jwt'', JStr ''u1'')]), env)))], 1)
        else (fst (mergeStatement exampleExternals (exampleInput ''a'') exampleSecuredMovie exampleActor
                     exampleContext exampleRelationField (NamedNode ''this'' []) ''this_movies0'' 0 [''this'']), 1))
   \<and> map_of (params (snd (getCypher
         (CompositeClause
            [fst (mergeStatement exampleExternals (exampleInput ''a'') exampleSecuredMovie exampleActor
                    exampleContext exampleRelationField (NamedNode ''this'' []) ''this_movies0'' 0 [''this'']),
             With [Star],
             RawCypher (RawCypherCallback (\<lambda>env.
               ((''CALL apoc.util.validate(NOT ($jwt.sub = this.owner), '' @ [CHR 0x22] @ ''Forbidden''
                   @ [CHR 0x22] @ '', [0])'', [(''jwt'', JStr ''u1'')]), env)))])
         (newEnvironment ''p'')))) ''jwt'' = Some (JStr ''u1'')"
  (is "?h1 \<and> ?h2 \<and> ?h3 \<and> ?shape \<and> ?merged")
proof -
  have h1: ?h1
    by (simp add: mergeStatement_def Let_def split_beta getCallbackFields_def exampleSecuredMovie_def
          exampleMovie_def exampleField_def exampleExternals_def)
  have h2: ?h2 by (simp add: exampleExternals_def)
  have h3: ?h3 by (simp add: exampleExternals_def)
  note t = partialStatement_auth[OF h1 h2 h3 refl, where env = "newEnvironment ''p''"]
  from t have shape: ?shape by blast
  from t have "\<forall>k v. map_of (rev [(''jwt'', JStr ''u1'')]) k = Some v \<longrightarrow>
      map_of (params (snd (getCypher
         (CompositeClause
            [fst (mergeStatement exampleExternals (exampleInput ''a'') exampleSecuredMovie exampleActor
                    exampleContext exampleRelationField (NamedNode ''this'' []) ''this_movies0'' 0 [''this'']),
             With [Star],
             RawCypher (RawCypherCallback (\<lambda>env.
               ((''CALL apoc.util.validate(NOT ($jwt.sub = this.owner), '' @ [CHR 0x22] @ ''Forbidden''
                   @ [CHR 0x22] @ '', [0])'', [(''jwt'', JStr ''u1'')]), env)))])
         (newEnvironment ''p'')))) k = Some v" by blast
  then have merged: ?merged by simp
  from h1 h2 h3 shape merged show ?thesis by blast
qed

section \<open>Fresh names and the naming invariant\<close>












section \<open>Objects as association lists\<close>

lemma assign_absent: "key \<notin> fst ` set acc \<Longrightarrow> assign key v acc = acc @ [(key, v)]"
  by (induction acc) (auto simp: assign_def)

lemma distinct_assign: "distinct (map fst acc) \<Longrightarrow> distinct (map fst (assign key v acc))"
  by (simp add: assign_def distinct_update)

lemma map_of_assign: "map_of (assign key v acc) = (map_of acc)(key \<mapsto> v)"
  by (simp add: assign_def update_conv')


lemma distinct_fold_step:
  assumes "\<And>x acc. distinct (map fst acc) \<Longrightarrow> distinct (map fst (step x acc))"
  shows "distinct (map fst acc) \<Longrightarrow> distinct (map fst (fold step xs acc))"
  by (induction xs arbitrary: acc) (simp_all add: assms)

lemma fold_assign_distinct:
  "distinct (map fst a) \<Longrightarrow> fst ` set a \<inter> fst ` set acc = {} \<Longrightarrow>
     fold (\<lambda>(key, v) acc. assign key v acc) a acc = acc @ a"
proof (induction a arbitrary: acc)
  case Nil
  then show ?case by simp
next
  case (Cons p ps)
  obtain k v where p: "p = (k, v)" by (cases p)
  from Cons.prems p have absent: "k \<notin> fst ` set acc" by auto
  from Cons.prems p have "distinct (map fst ps)" and "fst ` set ps \<inter> fst ` set (acc @ [(k, v)]) = {}"
    by auto
  from Cons.IH[OF this] show ?case
    by (simp add: p assign_absent[OF absent])
qed

lemma spread_distinct:
  "distinct (map fst a) \<Longrightarrow> spread a b = fold (\<lambda>(key, v) acc. assign key v acc) b a"
  using fold_assign_distinct[of a "[]"] by (simp add: spread_def)

lemma map_of_rev_distinct:
  fixes b :: "(string \<times> 'v) list"
  shows "distinct (map fst b) \<Longrightarrow> map_of (rev b) = map_of b"
  using fold_assign_distinct[of b "[]"] map_of_fold_assign[of b "[]"] by simp

lemma map_of_spread:
  "distinct (map fst a) \<Longrightarrow> distinct (map fst b) \<Longrightarrow> map_of (spread a b) = map_of a ++ map_of b"
  by (simp add: spread_distinct map_of_fold_assign map_of_rev_distinct)

lemma distinct_spread: "distinct (map fst (spread a b))"
proof -
  have "distinct (map fst (fold (\<lambda>(key, v) acc. assign key v acc) xs acc))"
    if "distinct (map fst acc)" for xs and acc :: "(string \<times> 'a) list"
    using that by (rule distinct_fold_step[rotated]) (auto simp: distinct_assign)
  then show ?thesis by (simp add: spread_def)
qed

section \<open>Generated defaults\<close>

lemma toLowerCase_DateTime: "toLowerCase ''DateTime'' = ''datetime''"
  by code_simp

lemma toLowerCase_Time: "toLowerCase ''Time'' = ''time''"
  by code_simp

lemma find_append:
  "find P (xs @ ys) = (case find P xs of None \<Rightarrow> find P ys | Some x \<Rightarrow> Some x)"
  by (induction xs) auto

lemma find_filter: "find Q (filter P xs) = find (\<lambda>x. P x \<and> Q x) xs"
  by (induction xs) auto

lemma map_of_fold_primitive:
  "map_of (fold (\<lambda>field acc.
                    case dbPropertyName field of
                      None \<Rightarrow> acc
                    | Some dbName \<Rightarrow>
                        if dbName \<noteq> []
                        then assign dbName (RawCypherParam (RawCypherString ''randomUUID()'')) acc
                        else acc) fs acc) k
     = (if k \<noteq> [] \<and> (\<exists>f \<in> set fs. dbPropertyName f = Some k)
        then Some (RawCypherParam (RawCypherString ''randomUUID()''))
        else map_of acc k)"
  by (induction fs arbitrary: acc) (auto simp: map_of_assign split: option.splits)

lemma map_of_fold_temporal:
  "map_of (fold (\<lambda>field acc.
                    case dbPropertyName field of
                      None \<Rightarrow> acc
                    | Some dbName \<Rightarrow>
                        if dbName \<noteq> []
                        then assign dbName
                               (RawCypherParam (RawCypherString (toLowerCase (typeName (typeMeta field)) @ ''()''))) acc
                        else acc) fs acc) k
     = (case find (\<lambda>f. dbPropertyName f = Some k) (rev fs) of
          None \<Rightarrow> map_of acc k
        | Some f \<Rightarrow>
            if k \<noteq> []
            then Some (RawCypherParam (RawCypherString (toLowerCase (typeName (typeMeta f)) @ ''()'')))
            else map_of acc k)"
  by (induction fs arbitrary: acc) (auto simp: map_of_assign find_append split: option.splits)

lemma distinct_fold_optional_assign:
  "distinct (map fst acc) \<Longrightarrow>
     distinct (map fst (fold (\<lambda>field acc.
                    case dbPropertyName field of
                      None \<Rightarrow> acc
                    | Some dbName \<Rightarrow> if dbName \<noteq> [] then assign dbName (g field) acc else acc) fs acc))"
  by (rule distinct_fold_step[rotated]) (auto simp: distinct_assign split: option.splits)

lemma distinct_getAutogeneratedParams: "distinct (keys (getAutogeneratedParams n))"
  by (simp add: getAutogeneratedParams_def Let_def keys_def distinct_spread)

text \<open>
  C9, as amended. \<open>getAutogeneratedParams\<close> has an entry for a key exactly when the key is
  the non-empty \<open>dbPropertyName\<close> of an autogenerated primitive field or of a \<open>DateTime\<close> or
  \<open>Time\<close> temporal field with a \<open>CREATE\<close> timestamp. The key of an autogenerated primitive
  field maps to \<open>randomUUID()\<close>, also when a temporal field shares it; any other key maps to
  \<open>datetime()\<close> or \<open>time()\<close> according to the last such temporal field that carries it.
\<close>

theorem getAutogeneratedParams_entries:
  "map_of (getAutogeneratedParams n) k
     = (if k \<noteq> [] \<and> (\<exists>f \<in> set (primitiveFields n). autogenerate f \<and> dbPropertyName f = Some k)
        then Some (RawCypherParam (RawCypherString ''randomUUID()''))
        else case find (\<lambda>f. (typeName (typeMeta f) = ''DateTime'' \<or> typeName (typeMeta f) = ''Time'')
                            \<and> (\<exists>ts. timestamps f = Some ts \<and> ''CREATE'' \<in> set ts)
                            \<and> dbPropertyName f = Some k)
                    (rev (temporalFields n)) of
               None \<Rightarrow> None
             | Some f \<Rightarrow>
                 if k \<noteq> []
                 then Some (RawCypherParam (RawCypherString
                        (if typeName (typeMeta f) = ''DateTime'' then ''datetime()'' else ''time()'')))
                 else None)
   \<and> distinct (keys (getAutogeneratedParams n))"
  (is "?entries \<and> ?distinct")
proof (rule conjI)
  let ?qual = "\<lambda>f. (typeName (typeMeta f) = ''DateTime'' \<or> typeName (typeMeta f) = ''Time'')
                            \<and> (\<exists>ts. timestamps f = Some ts \<and> ''CREATE'' \<in> set ts)"
  have q: "(\<lambda>field. typeName (typeMeta field) \<in> set [''DateTime'', ''Time'']
                  \<and> (case timestamps field of None \<Rightarrow> False | Some ts \<Rightarrow> ''CREATE'' \<in> set ts)) = ?qual"
    by (auto simp: fun_eq_iff split: option.splits)
  have low: "toLowerCase (typeName (typeMeta f)) @ ''()''
               = (if typeName (typeMeta f) = ''DateTime'' then ''datetime()'' else ''time()'')"
    if "?qual f" for f
    using that by (auto simp: toLowerCase_DateTime toLowerCase_Time)
  have fq: "find (\<lambda>f. dbPropertyName f = Some k) (rev (filter ?qual (temporalFields n)))
              = find (\<lambda>f. ?qual f \<and> dbPropertyName f = Some k) (rev (temporalFields n))"
    by (simp add: rev_filter find_filter)
  have found: "?qual f" if "find (\<lambda>f. ?qual f \<and> dbPropertyName f = Some k) (rev (temporalFields n)) = Some f" for f
    using that by (auto simp: find_Some_iff)
  have main: "map_of (getAutogeneratedParams n) k
     = (if k \<noteq> [] \<and> (\<exists>f \<in> set (primitiveFields n). autogenerate f \<and> dbPropertyName f = Some k)
        then Some (RawCypherParam (RawCypherString ''randomUUID()''))
        else case find (\<lambda>f. ?qual f \<and> dbPropertyName f = Some k) (rev (temporalFields n)) of
               None \<Rightarrow> None
             | Some f \<Rightarrow>
                 if k \<noteq> []
                 then Some (RawCypherParam (RawCypherString
                        (if typeName (typeMeta f) = ''DateTime'' then ''datetime()'' else ''time()'')))
                 else None)"
    unfolding getAutogeneratedParams_def Let_def q
    apply (subst map_of_spread)
      apply (rule distinct_fold_optional_assign, simp)
     apply (rule distinct_fold_optional_assign, simp)
    apply (simp only: map_add_def map_of_fold_primitive map_of_fold_temporal fq)
    apply (auto split: option.splits simp: low[OF found])
    done
  show ?entries
    by (simp only: main conj_assoc)
  show ?distinct
    by (rule distinct_getAutogeneratedParams)
qed

text \<open>
  C9 as stated fails: a \<open>DateTime\<close> field with a \<open>CREATE\<close> timestamp whose database property
  a later \<open>Time\<close> field shares maps to \<open>time()\<close>, not to \<open>datetime()\<close>.
\<close>

theorem getAutogeneratedParams_temporal_counterexample:
  "typeName (typeMeta (temporalFields exampleSchedule ! 0)) = ''DateTime''
   \<and> timestamps (temporalFields exampleSchedule ! 0) = Some [''CREATE'']
   \<and> dbPropertyName (temporalFields exampleSchedule ! 0) = Some ''start''
   \<and> getAutogeneratedParams exampleSchedule = [(''start'', RawCypherParam (RawCypherString ''time()''))]"
  by (simp add: exampleSchedule_def exampleField_def getAutogeneratedParams_def spread_def assign_def
        toLowerCase_Time toLowerCase_DateTime)

section \<open>Parameters of an input record\<close>









section \<open>Explicit values and generated defaults in the node merge\<close>







end
